theory Spec2Isabelle
  imports Main "HOL-Library.Mapping" "HOL-Library.AList_Mapping"
begin

section \<open>Errors\<close>

text \<open>
  Errors of package collector. Go builds each of them with \<open>errors.New\<close> from a
  message; the model keeps one constructor per message and the text that the message
  embeds (the error of a library, the status code) as its argument.
\<close>

datatype err =
    ErrNewRequest string     \<comment> \<open>"new http request failed: %s"\<close>
  | ErrHttpRequest string    \<comment> \<open>"http request failed: %s"\<close>
  | ErrStatusCode int        \<comment> \<open>"status code: %d"\<close>
  | ErrEmptyUrl              \<comment> \<open>"empty url"\<close>
  | ErrAlreadyVisited        \<comment> \<open>"page already visited"\<close>
  | ErrStillProcessed        \<comment> \<open>"page still being processed"\<close>
  | ErrDocument string       \<comment> \<open>the error of \<open>goquery.NewDocumentFromReader\<close>\<close>
  | ErrUrlHasHash            \<comment> \<open>"url has #"\<close>
  | ErrPageUrl               \<comment> \<open>"page url could not be parsed"\<close>
  | ErrBaseUrl               \<comment> \<open>"base url could not be parsed with href"\<close>
  | ErrUnknownScheme         \<comment> \<open>"unknown scheme"\<close>
  | ErrSeedNotValid          \<comment> \<open>"seed is not valid url: %s"\<close>
  | ErrDepth                 \<comment> \<open>"depth should be a positive number"\<close>
  | ErrMarshal string        \<comment> \<open>the error of \<open>json.MarshalIndent\<close>\<close>
  | ErrWriteFile string      \<comment> \<open>the error of \<open>ioutil.WriteFile\<close>\<close>

text \<open>
  What ends the whole process instead of returning: the runtime panic of a method called
  on a nil pointer, the panic of a wait group counted below zero, and the runtime's
  "all goroutines are asleep" when a receive or a wait can never be served.
\<close>

datatype fault = NilPointerDereference | NegativeWaitGroupCounter | Deadlock

definition and_then :: "fault + 'a \<Rightarrow> ('a \<Rightarrow> fault + 'b) \<Rightarrow> fault + 'b" where
  "and_then r f = (case r of Inl e \<Rightarrow> Inl e | Inr x \<Rightarrow> f x)"

section \<open>Strings\<close>

text \<open>
  A Go string is a sequence of bytes; the model is \<open>string\<close>, one \<open>char\<close> per byte.
  The functions of package strings that the program and package net/url call:
\<close>

definition HasPrefix :: "string \<Rightarrow> string \<Rightarrow> bool" where
  "HasPrefix s prefix = (take (length prefix) s = prefix)"

definition HasSuffix :: "string \<Rightarrow> string \<Rightarrow> bool" where
  "HasSuffix s suffix = (length suffix \<le> length s \<and> drop (length s - length suffix) s = suffix)"

fun Index :: "string \<Rightarrow> string \<Rightarrow> nat option" where
  "Index [] substr = (if substr = [] then Some 0 else None)"
| "Index (c # cs) substr =
     (if HasPrefix (c # cs) substr then Some 0 else map_option Suc (Index cs substr))"

fun LastIndex :: "string \<Rightarrow> string \<Rightarrow> nat option" where
  "LastIndex [] substr = (if substr = [] then Some 0 else None)"
| "LastIndex (c # cs) substr =
     (case LastIndex cs substr of
        Some i \<Rightarrow> Some (Suc i)
      | None \<Rightarrow> if HasPrefix (c # cs) substr then Some 0 else None)"

definition Contains :: "string \<Rightarrow> string \<Rightarrow> bool" where
  "Contains s substr = (Index s substr \<noteq> None)"

definition is_upper :: "char \<Rightarrow> bool" where
  "is_upper c = (65 \<le> (of_char c :: nat) \<and> (of_char c :: nat) \<le> 90)"

definition is_lower :: "char \<Rightarrow> bool" where
  "is_lower c = (97 \<le> (of_char c :: nat) \<and> (of_char c :: nat) \<le> 122)"

definition is_digit :: "char \<Rightarrow> bool" where
  "is_digit c = (48 \<le> (of_char c :: nat) \<and> (of_char c :: nat) \<le> 57)"

text \<open>
  \<open>strings.ToLower\<close> on the ASCII letters. (Go also maps the letters beyond ASCII;
  the model leaves every byte from 128 on as it is.)
\<close>

definition lower_byte :: "char \<Rightarrow> char" where
  "lower_byte c = (if is_upper c then char_of ((of_char c :: nat) + 32) else c)"

definition ToLower :: "string \<Rightarrow> string" where
  "ToLower s = map lower_byte s"

text \<open>The unexported \<open>split\<close> of net/url: cut at the first \<open>sep\<close>.\<close>

definition split :: "string \<Rightarrow> char \<Rightarrow> bool \<Rightarrow> string \<times> string" where
  "split s sep cutc =
     (case Index s [sep] of
        None \<Rightarrow> (s, [])
      | Some i \<Rightarrow> if cutc then (take i s, drop (i + 1) s) else (take i s, drop i s))"

fun Split :: "string \<Rightarrow> char \<Rightarrow> string list" where
  "Split [] sep = [[]]"
| "Split (c # cs) sep =
     (if c = sep then [] # Split cs sep
      else (case Split cs sep of [] \<Rightarrow> [[c]] | x # xs \<Rightarrow> (c # x) # xs))"

fun Join :: "string list \<Rightarrow> string \<Rightarrow> string" where
  "Join [] sep = []"
| "Join [x] sep = x"
| "Join (x # y # ys) sep = x @ sep @ Join (y # ys) sep"

section \<open>Package net/url\<close>

text \<open>
  The URL resolver is built on \<open>url.ParseRequestURI\<close>, \<open>URL.Parse\<close> and
  \<open>URL.String\<close> of the Go standard library. The library is not part of the repository;
  the definitions of this section follow its functions one by one (Go 1.17), with the
  library's names. An error of the library is \<open>None\<close>: the program never looks at which
  error it was.
\<close>

record Userinfo =
  username :: string
  password :: string
  passwordSet :: bool

record URL =
  Scheme :: string
  Opaque :: string
  User :: "Userinfo option"
  Host :: string
  Path :: string
  RawPath :: string
  ForceQuery :: bool
  RawQuery :: string
  Fragment :: string
  RawFragment :: string

datatype encoding =
  encodePath | encodePathSegment | encodeHost | encodeZone
  | encodeUserPassword | encodeQueryComponent | encodeFragment

definition ishex :: "char \<Rightarrow> bool" where
  "ishex c = (is_digit c
     \<or> (97 \<le> (of_char c :: nat) \<and> (of_char c :: nat) \<le> 102)
     \<or> (65 \<le> (of_char c :: nat) \<and> (of_char c :: nat) \<le> 70))"

definition unhex :: "char \<Rightarrow> nat" where
  "unhex c =
     (if is_digit c then of_char c - 48
      else if 97 \<le> (of_char c :: nat) \<and> (of_char c :: nat) \<le> 102 then of_char c - 97 + 10
      else if 65 \<le> (of_char c :: nat) \<and> (of_char c :: nat) \<le> 70 then of_char c - 65 + 10
      else 0)"

definition shouldEscape :: "char \<Rightarrow> encoding \<Rightarrow> bool" where
  "shouldEscape c mode =
     (if is_lower c \<or> is_upper c \<or> is_digit c then False
      else if (mode = encodeHost \<or> mode = encodeZone) \<and> c \<in> set ''!$&'()*+,;=:[]<>\"'' then False
      else if c \<in> set ''-_.~'' then False
      else if c \<in> set ''$&+,/:;=?@'' \<and> mode = encodePath then c = CHR ''?''
      else if c \<in> set ''$&+,/:;=?@'' \<and> mode = encodePathSegment then c \<in> set ''/;,?''
      else if c \<in> set ''$&+,/:;=?@'' \<and> mode = encodeUserPassword then c \<in> set ''@/?:''
      else if c \<in> set ''$&+,/:;=?@'' \<and> mode = encodeQueryComponent then True
      else if c \<in> set ''$&+,/:;=?@'' \<and> mode = encodeFragment then False
      else if mode = encodeFragment \<and> c \<in> set ''!()*'' then False
      else True)"

fun unescape :: "string \<Rightarrow> encoding \<Rightarrow> string option" where
  "unescape [] mode = Some []"
| "unescape (c # cs) mode =
     (if c = CHR ''%'' then
        (case cs of
           a # b # rest \<Rightarrow>
             if \<not> ishex a \<or> \<not> ishex b then None
             else if mode = encodeHost \<and> unhex a < 8 \<and> [c, a, b] \<noteq> ''%25'' then None
             else if mode = encodeZone \<and> [c, a, b] \<noteq> ''%25''
                     \<and> unhex a * 16 + unhex b \<noteq> 32
                     \<and> shouldEscape (char_of (unhex a * 16 + unhex b)) encodeHost then None
             else map_option ((#) (char_of (unhex a * 16 + unhex b))) (unescape rest mode)
         | _ \<Rightarrow> None)
      else if c = CHR ''+'' then
        map_option ((#) (if mode = encodeQueryComponent then CHR '' '' else CHR ''+''))
          (unescape cs mode)
      else if (mode = encodeHost \<or> mode = encodeZone) \<and> (of_char c :: nat) < 128
              \<and> shouldEscape c encodeHost then None
      else map_option ((#) c) (unescape cs mode))"

definition upperhex :: "nat \<Rightarrow> char" where
  "upperhex n = ''0123456789ABCDEF'' ! (n mod 16)"

definition escape_byte :: "encoding \<Rightarrow> char \<Rightarrow> string" where
  "escape_byte mode c =
     (if shouldEscape c mode then
        (if c = CHR '' '' \<and> mode = encodeQueryComponent then ''+''
         else [CHR ''%'', upperhex ((of_char c :: nat) div 16), upperhex ((of_char c :: nat) mod 16)])
      else [c])"

definition escape :: "string \<Rightarrow> encoding \<Rightarrow> string" where
  "escape s mode = concat (map (escape_byte mode) s)"

text \<open>
  \<open>getScheme\<close>: the bytes before the current one are \<open>seen\<close>; the result is the scheme
  and the rest, \<open>None\<close> for "missing protocol scheme".
\<close>

fun getScheme_from :: "string \<Rightarrow> string \<Rightarrow> string \<Rightarrow> (string \<times> string) option" where
  "getScheme_from seen [] rawURL = Some ([], rawURL)"
| "getScheme_from seen (c # cs) rawURL =
     (if is_lower c \<or> is_upper c then getScheme_from (seen @ [c]) cs rawURL
      else if is_digit c \<or> c \<in> set ''+-.'' then
        (if seen = [] then Some ([], rawURL) else getScheme_from (seen @ [c]) cs rawURL)
      else if c = CHR '':'' then
        (if seen = [] then None else Some (seen, cs))
      else Some ([], rawURL))"

definition getScheme :: "string \<Rightarrow> (string \<times> string) option" where
  "getScheme rawURL = getScheme_from [] rawURL rawURL"

definition stringContainsCTLByte :: "string \<Rightarrow> bool" where
  "stringContainsCTLByte s = (\<exists>b \<in> set s. (of_char b :: nat) < 32 \<or> (of_char b :: nat) = 127)"

definition validOptionalPort :: "string \<Rightarrow> bool" where
  "validOptionalPort port =
     (case port of
        [] \<Rightarrow> True
      | c # ds \<Rightarrow> c = CHR '':'' \<and> (\<forall>b \<in> set ds. is_digit b))"

definition validUserinfo :: "string \<Rightarrow> bool" where
  "validUserinfo s =
     (\<forall>r \<in> set s. is_upper r \<or> is_lower r \<or> is_digit r \<or> r \<in> set ''-._:~!$&'()*+,;=%@'')"

definition parseHost :: "string \<Rightarrow> string option" where
  "parseHost host =
     (if HasPrefix host ''['' then
        (case LastIndex host '']'' of
           None \<Rightarrow> None
         | Some i \<Rightarrow>
             if \<not> validOptionalPort (drop (i + 1) host) then None
             else (case Index (take i host) ''%25'' of
                     Some zone \<Rightarrow>
                       (case unescape (take zone host) encodeHost of
                          None \<Rightarrow> None
                        | Some host1 \<Rightarrow>
                            (case unescape (drop zone (take i host)) encodeZone of
                               None \<Rightarrow> None
                             | Some host2 \<Rightarrow>
                                 (case unescape (drop i host) encodeHost of
                                    None \<Rightarrow> None
                                  | Some host3 \<Rightarrow> Some (host1 @ host2 @ host3))))
                   | None \<Rightarrow> unescape host encodeHost))
      else
        (case LastIndex host '':'' of
           Some i \<Rightarrow>
             if \<not> validOptionalPort (drop i host) then None else unescape host encodeHost
         | None \<Rightarrow> unescape host encodeHost))"

definition parseAuthority :: "string \<Rightarrow> (Userinfo option \<times> string) option" where
  "parseAuthority authority =
     (case LastIndex authority ''@'' of
        None \<Rightarrow> map_option (Pair None) (parseHost authority)
      | Some i \<Rightarrow>
          (case parseHost (drop (i + 1) authority) of
             None \<Rightarrow> None
           | Some host \<Rightarrow>
               let userinfo = take i authority in
               if \<not> validUserinfo userinfo then None
               else if \<not> Contains userinfo '':'' then
                 (case unescape userinfo encodeUserPassword of
                    None \<Rightarrow> None
                  | Some u \<Rightarrow>
                      Some (Some \<lparr>username = u, password = [], passwordSet = False\<rparr>, host))
               else
                 (case unescape (fst (split userinfo CHR '':'' True)) encodeUserPassword of
                    None \<Rightarrow> None
                  | Some u \<Rightarrow>
                      (case unescape (snd (split userinfo CHR '':'' True)) encodeUserPassword of
                         None \<Rightarrow> None
                       | Some p \<Rightarrow>
                           Some (Some \<lparr>username = u, password = p, passwordSet = True\<rparr>, host)))))"

definition setPath :: "URL \<Rightarrow> string \<Rightarrow> URL option" where
  "setPath u p =
     (case unescape p encodePath of
        None \<Rightarrow> None
      | Some path \<Rightarrow>
          Some (u\<lparr>Path := path, RawPath := (if p = escape path encodePath then [] else p)\<rparr>))"

definition setFragment :: "URL \<Rightarrow> string \<Rightarrow> URL option" where
  "setFragment u f =
     (case unescape f encodeFragment of
        None \<Rightarrow> None
      | Some frag \<Rightarrow>
          Some (u\<lparr>Fragment := frag,
                  RawFragment := (if f = escape frag encodeFragment then [] else f)\<rparr>))"

definition empty_URL :: URL where
  "empty_URL = \<lparr>Scheme = [], Opaque = [], User = None, Host = [], Path = [], RawPath = [],
     ForceQuery = False, RawQuery = [], Fragment = [], RawFragment = []\<rparr>"

definition count_byte :: "string \<Rightarrow> char \<Rightarrow> nat" where
  "count_byte s c = length (filter (\<lambda>b. b = c) s)"

text \<open>The unexported \<open>parse\<close>; \<open>viaRequest\<close> is set by \<open>ParseRequestURI\<close> only.\<close>

definition parse :: "string \<Rightarrow> bool \<Rightarrow> URL option" where
  "parse rawURL viaRequest =
     (if stringContainsCTLByte rawURL then None
      else if rawURL = [] \<and> viaRequest then None
      else if rawURL = ''*'' then Some (empty_URL\<lparr>Path := ''*''\<rparr>)
      else
        (case getScheme rawURL of
           None \<Rightarrow> None
         | Some (scheme0, rest0) \<Rightarrow>
             let scheme = ToLower scheme0;
                 force = (HasSuffix rest0 ''?'' \<and> count_byte rest0 CHR ''?'' = 1);
                 rest1 = (if force then take (length rest0 - 1) rest0
                          else fst (split rest0 CHR ''?'' True));
                 query = (if force then [] else snd (split rest0 CHR ''?'' True));
                 url = empty_URL\<lparr>Scheme := scheme, ForceQuery := force, RawQuery := query\<rparr>
             in
             if \<not> HasPrefix rest1 ''/'' \<and> scheme \<noteq> [] then Some (url\<lparr>Opaque := rest1\<rparr>)
             else if \<not> HasPrefix rest1 ''/'' \<and> viaRequest then None
             else if \<not> HasPrefix rest1 ''/'' \<and>
                     (case Index rest1 '':'' of
                        None \<Rightarrow> False
                      | Some colon \<Rightarrow>
                          (case Index rest1 ''/'' of None \<Rightarrow> True | Some slash \<Rightarrow> colon < slash))
                  then None
             else if (scheme \<noteq> [] \<or> \<not> viaRequest \<and> \<not> HasPrefix rest1 ''///'')
                     \<and> HasPrefix rest1 ''//'' then
               (case parseAuthority (fst (split (drop 2 rest1) CHR ''/'' False)) of
                  None \<Rightarrow> None
                | Some (user, host) \<Rightarrow>
                    setPath (url\<lparr>User := user, Host := host\<rparr>)
                      (snd (split (drop 2 rest1) CHR ''/'' False)))
             else setPath url rest1))"

definition ParseRequestURI :: "string \<Rightarrow> URL option" where
  "ParseRequestURI rawURL = parse rawURL True"

definition Parse :: "string \<Rightarrow> URL option" where
  "Parse rawURL =
     (case parse (fst (split rawURL CHR ''#'' True)) False of
        None \<Rightarrow> None
      | Some url \<Rightarrow>
          if snd (split rawURL CHR ''#'' True) = [] then Some url
          else setFragment url (snd (split rawURL CHR ''#'' True)))"

definition validEncoded :: "string \<Rightarrow> encoding \<Rightarrow> bool" where
  "validEncoded s mode =
     (\<forall>c \<in> set s. c \<in> set ''!$&'()*+,;=:@[]%'' \<or> \<not> shouldEscape c mode)"

definition EscapedPath :: "URL \<Rightarrow> string" where
  "EscapedPath u =
     (if RawPath u \<noteq> [] \<and> validEncoded (RawPath u) encodePath
         \<and> unescape (RawPath u) encodePath = Some (Path u) then RawPath u
      else if Path u = ''*'' then ''*''
      else escape (Path u) encodePath)"

definition EscapedFragment :: "URL \<Rightarrow> string" where
  "EscapedFragment u =
     (if RawFragment u \<noteq> [] \<and> validEncoded (RawFragment u) encodeFragment
         \<and> unescape (RawFragment u) encodeFragment = Some (Fragment u) then RawFragment u
      else escape (Fragment u) encodeFragment)"

definition Userinfo_String :: "Userinfo \<Rightarrow> string" where
  "Userinfo_String ui =
     escape (username ui) encodeUserPassword
       @ (if passwordSet ui then '':'' @ escape (password ui) encodeUserPassword else [])"

definition URL_String :: "URL \<Rightarrow> string" where
  "URL_String u =
     (let buf0 = (if Scheme u \<noteq> [] then Scheme u @ '':'' else []);
          buf1 =
            (if Opaque u \<noteq> [] then buf0 @ Opaque u
             else
               (let auth =
                      (if Scheme u \<noteq> [] \<or> Host u \<noteq> [] \<or> User u \<noteq> None then
                         (if Host u \<noteq> [] \<or> Path u \<noteq> [] \<or> User u \<noteq> None then ''//'' else [])
                         @ (case User u of None \<Rightarrow> [] | Some ui \<Rightarrow> Userinfo_String ui @ ''@'')
                         @ (if Host u \<noteq> [] then escape (Host u) encodeHost else [])
                       else []);
                    path = EscapedPath u;
                    buf2 = buf0 @ auth
                      @ (if path \<noteq> [] \<and> hd path \<noteq> CHR ''/'' \<and> Host u \<noteq> [] then ''/'' else []);
                    buf3 = buf2 @
                      (if buf2 = [] \<and>
                          (case Index path '':'' of
                             None \<Rightarrow> False
                           | Some i \<Rightarrow> Index (take i path) ''/'' = None)
                       then ''./'' else [])
                in buf3 @ path));
          buf4 = buf1 @ (if ForceQuery u \<or> RawQuery u \<noteq> [] then ''?'' @ RawQuery u else [])
      in buf4 @ (if Fragment u \<noteq> [] then ''#'' @ EscapedFragment u else []))"

text \<open>\<open>resolvePath\<close>: the dot segments of RFC 3986 (5.2.4) are removed.\<close>

fun remove_dots :: "string list \<Rightarrow> string list \<Rightarrow> string list" where
  "remove_dots dst [] = dst"
| "remove_dots dst (elem # src) =
     (if elem = ''.'' then remove_dots dst src
      else if elem = ''..'' then remove_dots (butlast dst) src
      else remove_dots (dst @ [elem]) src)"

definition resolvePath :: "string \<Rightarrow> string \<Rightarrow> string" where
  "resolvePath base ref =
     (let full =
            (if ref = [] then base
             else if hd ref \<noteq> CHR ''/'' then
               (case LastIndex base ''/'' of
                  None \<Rightarrow> ref
                | Some i \<Rightarrow> take (i + 1) base @ ref)
             else ref)
      in if full = [] then []
         else
           (let src = Split full CHR ''/'';
                dst = remove_dots [] src;
                dst' = (if last src = ''.'' \<or> last src = ''..'' then dst @ [[]] else dst);
                joined = Join dst' ''/''
            in ''/'' @ (if HasPrefix joined ''/'' then drop 1 joined else joined)))"

definition ResolveReference :: "URL \<Rightarrow> URL \<Rightarrow> URL" where
  "ResolveReference u ref =
     (let url = (if Scheme ref = [] then ref\<lparr>Scheme := Scheme u\<rparr> else ref) in
      if Scheme ref \<noteq> [] \<or> Host ref \<noteq> [] \<or> User ref \<noteq> None then
        (case setPath url (resolvePath (EscapedPath ref) []) of None \<Rightarrow> url | Some url' \<Rightarrow> url')
      else if Opaque ref \<noteq> [] then url\<lparr>User := None, Host := [], Path := []\<rparr>
      else
        (let url1 =
               (if Path ref = [] \<and> RawQuery ref = [] then
                  (let url0 = url\<lparr>RawQuery := RawQuery u\<rparr> in
                   if Fragment ref = []
                   then url0\<lparr>Fragment := Fragment u, RawFragment := RawFragment u\<rparr>
                   else url0)
                else url);
             url2 = url1\<lparr>Host := Host u, User := User u\<rparr>
         in (case setPath url2 (resolvePath (EscapedPath u) (EscapedPath ref)) of
               None \<Rightarrow> url2
             | Some url' \<Rightarrow> url')))"

text \<open>\<open>URL.Parse\<close>: parse the reference and resolve it against the receiver.\<close>

definition URL_Parse :: "URL \<Rightarrow> string \<Rightarrow> URL option" where
  "URL_Parse u ref = map_option (ResolveReference u) (Parse ref)"

section \<open>Text normalizer\<close>

text \<open>
  \<open>strings.TrimSpace\<close> and the regular expression work on the runes of the UTF-8 string.
  A rune is written here as its UTF-8 encoding. \<open>Zs_runes\<close> is the Unicode category Zs
  (space separators): U+0020, U+00A0, U+1680, U+2000 to U+200A, U+202F, U+205F, U+3000.
\<close>

definition Zs_runes :: "string list" where
  "Zs_runes =
     [[CHR 0x20], [CHR 0xC2, CHR 0xA0], [CHR 0xE1, CHR 0x9A, CHR 0x80],
      [CHR 0xE2, CHR 0x80, CHR 0x80], [CHR 0xE2, CHR 0x80, CHR 0x81],
      [CHR 0xE2, CHR 0x80, CHR 0x82], [CHR 0xE2, CHR 0x80, CHR 0x83],
      [CHR 0xE2, CHR 0x80, CHR 0x84], [CHR 0xE2, CHR 0x80, CHR 0x85],
      [CHR 0xE2, CHR 0x80, CHR 0x86], [CHR 0xE2, CHR 0x80, CHR 0x87],
      [CHR 0xE2, CHR 0x80, CHR 0x88], [CHR 0xE2, CHR 0x80, CHR 0x89],
      [CHR 0xE2, CHR 0x80, CHR 0x8A], [CHR 0xE2, CHR 0x80, CHR 0xAF],
      [CHR 0xE2, CHR 0x81, CHR 0x9F], [CHR 0xE3, CHR 0x80, CHR 0x80]]"

text \<open>
  The class \<^verbatim>\<open>[\s\p{Zs}]\<close> of the pattern: \<^verbatim>\<open>\s\<close> is tab, line feed, form feed,
  carriage return and space.
\<close>

definition pattern_runes :: "string list" where
  "pattern_runes = [[CHR 0x09], [CHR 0x0A], [CHR 0x0C], [CHR 0x0D]] @ Zs_runes"

text \<open>
  \<open>unicode.IsSpace\<close>: tab, line feed, vertical tab, form feed, carriage return, space,
  U+0085, U+00A0, U+2028, U+2029 and the rest of category Zs.
\<close>

definition IsSpace_runes :: "string list" where
  "IsSpace_runes =
     [[CHR 0x09], [CHR 0x0A], [CHR 0x0B], [CHR 0x0C], [CHR 0x0D], [CHR 0xC2, CHR 0x85],
      [CHR 0xE2, CHR 0x80, CHR 0xA8], [CHR 0xE2, CHR 0x80, CHR 0xA9]] @ Zs_runes"

text \<open>
  The width in bytes of the rune of \<open>runes\<close> that \<open>s\<close> starts (ends) with, 0 when it
  starts (ends) with none. No encoding of a rune starts inside the encoding of another
  one, so looking for an encoding at a byte offset finds the runes the decoder finds.
\<close>

definition first_rune :: "string list \<Rightarrow> string \<Rightarrow> nat" where
  "first_rune runes s = (case find (HasPrefix s) runes of None \<Rightarrow> 0 | Some r \<Rightarrow> length r)"

definition last_rune :: "string list \<Rightarrow> string \<Rightarrow> nat" where
  "last_rune runes s = (case find (HasSuffix s) runes of None \<Rightarrow> 0 | Some r \<Rightarrow> length r)"

function TrimLeft :: "string list \<Rightarrow> string \<Rightarrow> string" where
  "TrimLeft runes s =
     (if s = [] \<or> first_rune runes s = 0 then s
      else TrimLeft runes (drop (first_rune runes s) s))"
  by pat_completeness auto
termination
  by (relation "measure (\<lambda>(runes, s). length s)") auto

declare TrimLeft.simps [simp del]

function TrimRight :: "string list \<Rightarrow> string \<Rightarrow> string" where
  "TrimRight runes s =
     (if s = [] \<or> last_rune runes s = 0 then s
      else TrimRight runes (take (length s - last_rune runes s) s))"
  by pat_completeness auto
termination
  by (relation "measure (\<lambda>(runes, s). length s)") auto

declare TrimRight.simps [simp del]

definition TrimSpace :: "string \<Rightarrow> string" where
  "TrimSpace s = TrimRight IsSpace_runes (TrimLeft IsSpace_runes s)"

text \<open>
  The longest run of runes of \<open>runes\<close> that \<open>s\<close> starts with: the number of its runes and
  of its bytes. The quantifier \<^verbatim>\<open>{2,}\<close> is greedy, so a match of the pattern is such a
  run, of two runes or more.
\<close>

function run_of :: "string list \<Rightarrow> string \<Rightarrow> nat \<times> nat" where
  "run_of runes s =
     (if s = [] \<or> first_rune runes s = 0 then (0, 0)
      else (Suc (fst (run_of runes (drop (first_rune runes s) s))),
            first_rune runes s + snd (run_of runes (drop (first_rune runes s) s))))"
  by pat_completeness auto
termination
  by (relation "measure (\<lambda>(runes, s). length s)") auto

declare run_of.simps [simp del]

lemma run_of_bytes: "0 < fst (run_of runes s) \<Longrightarrow> 0 < snd (run_of runes s)"
  by (subst run_of.simps, subst (asm) run_of.simps) (auto split: if_splits)

text \<open>
  \<^verbatim>\<open>regexp.MustCompile(`[\s\p{Zs}]{2,}`).ReplaceAllString(s, "")\<close>: the matches are
  found from left to right, each as long as possible, and every match is replaced by the
  empty string; what is not matched is copied.
\<close>

function ReplaceAllString :: "string \<Rightarrow> string" where
  "ReplaceAllString s =
     (if s = [] then []
      else if 2 \<le> fst (run_of pattern_runes s)
      then ReplaceAllString (drop (snd (run_of pattern_runes s)) s)
      else if fst (run_of pattern_runes s) = 1
      then take (snd (run_of pattern_runes s)) s
             @ ReplaceAllString (drop (snd (run_of pattern_runes s)) s)
      else hd s # ReplaceAllString (tl s))"
  by pat_completeness auto
termination
proof (relation "measure length")
  show "wf (measure length)" by simp
next
  fix s :: string
  assume "s \<noteq> []" "2 \<le> fst (run_of pattern_runes s)"
  then show "(drop (snd (run_of pattern_runes s)) s, s) \<in> measure length"
    using run_of_bytes [of pattern_runes s] by simp
next
  fix s :: string
  assume "s \<noteq> []" "fst (run_of pattern_runes s) = 1"
  then show "(drop (snd (run_of pattern_runes s)) s, s) \<in> measure length"
    using run_of_bytes [of pattern_runes s] by simp
next
  fix s :: string
  assume "s \<noteq> []"
  then show "(tl s, s) \<in> measure length" by simp
qed

declare ReplaceAllString.simps [simp del]

text \<open>
  \<open>TrimAndSanitize\<close>. \<open>Sanitize\<close> is \<open>bluemonday.StrictPolicy().Sanitize\<close>, the markup
  stripper of a library outside the repository.
\<close>

definition TrimAndSanitize :: "(string \<Rightarrow> string) \<Rightarrow> string \<Rightarrow> string" where
  "TrimAndSanitize Sanitize s = ReplaceAllString (TrimSpace (Sanitize s))"

section \<open>URL resolver\<close>

definition AbsoluteURL :: "string \<Rightarrow> string \<Rightarrow> err + string" where
  "AbsoluteURL pageURL href =
     (if HasPrefix href ''#'' then Inl ErrUrlHasHash
      else
        (case ParseRequestURI pageURL of
           None \<Rightarrow> Inl ErrPageUrl
         | Some baseURL \<Rightarrow>
             (case URL_Parse baseURL href of
                None \<Rightarrow> Inl ErrBaseUrl
              | Some absURL0 \<Rightarrow>
                  let absURL1 = absURL0\<lparr>Fragment := []\<rparr>;
                      absURL = (if Scheme absURL1 = ''//''
                                then absURL1\<lparr>Scheme := Scheme baseURL\<rparr> else absURL1)
                  in if Scheme absURL \<noteq> ''http'' \<and> Scheme absURL \<noteq> ''https''
                     then Inl ErrUnknownScheme
                     else Inr (URL_String absURL))))"

fun URLExists :: "string list \<Rightarrow> string \<Rightarrow> bool" where
  "URLExists [] url = False"
| "URLExists (item # urls) url = (if item = url then True else URLExists urls url)"

section \<open>The world outside the program\<close>

text \<open>
  What the program reads of an \<open>http.Response\<close>: the status code, the content length,
  the headers and the body.
\<close>

record Response =
  StatusCode :: int
  Response_ContentLength :: int
  Header :: "string \<rightharpoonup> string"
  Body :: string

definition Header_Get :: "(string \<rightharpoonup> string) \<Rightarrow> string \<Rightarrow> string" where
  "Header_Get h key = (case h key of None \<Rightarrow> [] | Some v \<Rightarrow> v)"

text \<open>
  What the program reads of a parsed \<open>goquery.Document\<close>, in document order: the text of
  every title element, the name and content attributes of every meta element, the text of
  every p element and the href attribute of every a element (\<open>None\<close>: no such attribute).
\<close>

record Document =
  title_elements :: "string list"
  meta_elements :: "(string option \<times> string option) list"
  p_elements :: "string list"
  a_elements :: "string option list"

text \<open>
  The libraries, the network, the clock and the file system are outside the program.
  \<^item> \<open>NewRequest\<close> is \<open>http.NewRequest(method, url, nil)\<close>: the text of its error, or \<open>None\<close>.
  \<^item> \<open>Do\<close> is \<open>Client.Do\<close> of a client with the 30 second timeout: the text of the
    transport error (a timeout is one) or the response. Its first argument is the number
    of requests sent before this one: the same URL may answer differently later on.
  \<^item> \<open>NewDocumentFromReader\<close> parses a body: the text of the error, or the document.
  \<^item> \<open>Sanitize\<close> is \<open>bluemonday.StrictPolicy().Sanitize\<close>.
  \<^item> \<open>Now\<close> is the clock in Unix seconds and \<open>GoroutineId\<close> the identifier of the running
    goroutine, both read after so many requests.
  \<^item> \<open>OpenFile\<close> opens the log file for appending, \<open>MarshalIndent\<close> and \<open>WriteFile\<close> save
    the results: the text of the error, or \<open>None\<close>.
\<close>

record World =
  NewRequest :: "string \<Rightarrow> string \<Rightarrow> string option"
  Do :: "nat \<Rightarrow> string \<Rightarrow> string \<Rightarrow> string + Response"
  NewDocumentFromReader :: "string \<Rightarrow> string + Document"
  Sanitize :: "string \<Rightarrow> string"
  Now :: "nat \<Rightarrow> int"
  GoroutineId :: "nat \<Rightarrow> int"
  OpenFile :: "string \<Rightarrow> string option"
  MarshalIndent :: "string option"
  WriteFile :: "string \<Rightarrow> string option"

section \<open>Page fetcher\<close>

text \<open>The requests handed to \<open>Client.Do\<close> so far, oldest first, each as (method, url).\<close>

type_synonym wire = "(string \<times> string) list"

text \<open>\<open>Request.Request\<close>: the result, and the requests sent once it returns.\<close>

definition Request :: "World \<Rightarrow> wire \<Rightarrow> string \<Rightarrow> string \<Rightarrow> (err + Response) \<times> wire" where
  "Request w sent url method =
     (case NewRequest w method url of
        Some e \<Rightarrow> (Inl (ErrNewRequest e), sent)
      | None \<Rightarrow>
          (case Do w (length sent) method url of
             Inl e \<Rightarrow> (Inl (ErrHttpRequest e), sent @ [(method, url)])
           | Inr response \<Rightarrow>
               if StatusCode response \<noteq> 200
               then (Inl (ErrStatusCode (StatusCode response)), sent @ [(method, url)])
               else (Inr response, sent @ [(method, url)])))"

definition HeadRequest :: "World \<Rightarrow> wire \<Rightarrow> string \<Rightarrow> (err + Response) \<times> wire" where
  "HeadRequest w sent url = Request w sent url ''HEAD''"

definition GetRequest :: "World \<Rightarrow> wire \<Rightarrow> string \<Rightarrow> (err + Response) \<times> wire" where
  "GetRequest w sent url = Request w sent url ''GET''"

section \<open>Audit log\<close>

definition INFO :: int where "INFO = 0"
definition WARNING :: int where "WARNING = 1"
definition ERROR :: int where "ERROR = 2"

text \<open>The messages of the program, one constructor per format string.\<close>

datatype message =
    MsgScrapeSucceeded string        \<comment> \<open>"Scrape succeded on page :%s"\<close>
  | MsgScrapeFailed string err       \<comment> \<open>"Scrape failed on page: %s Reason: %s"\<close>
  | MsgScrapeError err               \<comment> \<open>"Scrape error: %s"\<close>
  | MsgStarting string int           \<comment> \<open>"Crawling starting for url: %s with depth: %d"\<close>
  | MsgFinished int int              \<comment> \<open>"Collecting finished %d pages scrapped ..."\<close>
  | MsgMarshalError string           \<comment> \<open>"Error marshalling to json the results: %s"\<close>
  | MsgSaveError string              \<comment> \<open>"Error saving the results into the file: %s"\<close>
  | MsgSaved string                  \<comment> \<open>"Results saved successfully into the file :%s"\<close>
  | MsgErrorCreatingLoggers string   \<comment> \<open>"Error creating loggers: %s"\<close>

text \<open>
  The three loggers of a \<open>Loggers\<close> write to one file; the model is the list of the lines
  handed to them, oldest first, each with its level. (\<open>log.Logger.Printf\<close> drops the error
  of a write that fails, so the program cannot tell such a line from a written one.)
  A \<open>*Loggers\<close> may be nil: \<open>None\<close>.
\<close>

type_synonym Loggers = "(int \<times> message) list"

definition Log :: "Loggers option \<Rightarrow> int \<Rightarrow> message \<Rightarrow> fault + Loggers option" where
  "Log l t msg =
     (case l of
        None \<Rightarrow> Inl NilPointerDereference
      | Some lines \<Rightarrow>
          Inr (Some (if t = INFO \<or> t = WARNING \<or> t = ERROR then lines @ [(t, msg)] else lines)))"

definition CreateLoggers :: "World \<Rightarrow> string \<Rightarrow> string + Loggers" where
  "CreateLoggers w fileName = (case OpenFile w fileName of Some e \<Rightarrow> Inl e | None \<Rightarrow> Inr [])"

section \<open>State tracker\<close>

record SucceededPage =
  Url :: string
  Title :: string
  Description :: string
  ContentType :: string
  ContentLength :: int
  Timestamp :: int
  Urls :: "string list"
  Paragrahps :: "string list"

record FailedPage =
  FailedPage_Url :: string
  FailReason :: err
  FailedPage_Timestamp :: int

record ScrapeResult =
  Page :: "SucceededPage option"
  Error :: "err option"

text \<open>
  The \<open>Scrapper\<close>. Its three Go maps are finite maps. Every method takes the mutex for
  the length of the call; the model runs the calls one after the other, so the mutex has
  no field. \<open>Sent\<close> is not a field of
  the Go struct: it is the record of the requests the program has sent to the network.
\<close>

record Scrapper =
  Succeed :: "(string, SucceededPage) mapping"
  Failed :: "(string, FailedPage) mapping"
  InProcess :: "(string, int) mapping"
  Loggers :: "Loggers option"
  Sent :: wire

definition NewScrapper :: "Loggers option \<Rightarrow> Scrapper" where
  "NewScrapper loggers =
     \<lparr>Succeed = Mapping.empty, Failed = Mapping.empty, InProcess = Mapping.empty,
      Loggers = loggers, Sent = []\<rparr>"

definition Id :: "World \<Rightarrow> Scrapper \<Rightarrow> int" where
  "Id w s = GoroutineId w (length (Sent s))"

definition CurrentTimestamp :: "World \<Rightarrow> Scrapper \<Rightarrow> int" where
  "CurrentTimestamp w s = Now w (length (Sent s))"

definition log_line :: "Scrapper \<Rightarrow> int \<Rightarrow> message \<Rightarrow> fault + Scrapper" where
  "log_line s t msg = and_then (Log (Loggers s) t msg) (\<lambda>l. Inr (s\<lparr>Loggers := l\<rparr>))"

definition InitiateScrape :: "World \<Rightarrow> Scrapper \<Rightarrow> string \<Rightarrow> Scrapper" where
  "InitiateScrape w s url = s\<lparr>InProcess := Mapping.update url (Id w s) (InProcess s)\<rparr>"

definition ScrapeSucceed :: "Scrapper \<Rightarrow> string \<Rightarrow> SucceededPage \<Rightarrow> fault + Scrapper" where
  "ScrapeSucceed s url page =
     log_line (s\<lparr>Succeed := Mapping.update url page (Succeed s),
                 InProcess := Mapping.delete url (InProcess s)\<rparr>)
       INFO (MsgScrapeSucceeded (Url page))"

definition ScrapeFailed :: "Scrapper \<Rightarrow> string \<Rightarrow> FailedPage \<Rightarrow> fault + Scrapper" where
  "ScrapeFailed s url page =
     log_line (s\<lparr>Failed := Mapping.update url page (Failed s),
                 InProcess := Mapping.delete url (InProcess s)\<rparr>)
       INFO (MsgScrapeFailed (FailedPage_Url page) (FailReason page))"

text \<open>\<open>IsProcessed\<close> is false when the URL is in \<open>InProcess\<close>, as in the source.\<close>

definition IsProcessed :: "Scrapper \<Rightarrow> string \<Rightarrow> bool" where
  "IsProcessed s url = (case Mapping.lookup (InProcess s) url of Some _ \<Rightarrow> False | None \<Rightarrow> True)"

definition IsVisited :: "Scrapper \<Rightarrow> string \<Rightarrow> bool" where
  "IsVisited s url = (case Mapping.lookup (Succeed s) url of Some _ \<Rightarrow> True | None \<Rightarrow> False)"

definition IsFailed :: "Scrapper \<Rightarrow> string \<Rightarrow> bool" where
  "IsFailed s url = (case Mapping.lookup (Failed s) url of Some _ \<Rightarrow> True | None \<Rightarrow> False)"

definition NumberOfPagesSucceed :: "Scrapper \<Rightarrow> int" where
  "NumberOfPagesSucceed s = int (Mapping.size (Succeed s))"

definition NumberOfPagesFailed :: "Scrapper \<Rightarrow> int" where
  "NumberOfPagesFailed s = int (Mapping.size (Failed s))"

definition NumberOfPagesBeingProcessed :: "Scrapper \<Rightarrow> int" where
  "NumberOfPagesBeingProcessed s = int (Mapping.size (InProcess s))"

section \<open>Scrape unit\<close>

text \<open>
  \<open>strings.EqualFold\<close> on the ASCII letters (the only ones "description" has; Go also
  folds the long s and the Kelvin sign onto s and k).
\<close>

definition EqualFold :: "string \<Rightarrow> string \<Rightarrow> bool" where
  "EqualFold s t = (ToLower s = ToLower t)"

text \<open>The four \<open>Each\<close> loops of \<open>Scrape\<close> over the elements of the document.\<close>

definition find_title :: "World \<Rightarrow> Document \<Rightarrow> string" where
  "find_title w doc = foldl (\<lambda>title text. TrimAndSanitize (Sanitize w) text) [] (title_elements doc)"

definition find_description :: "string \<Rightarrow> Document \<Rightarrow> string" where
  "find_description title doc =
     foldl (\<lambda>description (name, content).
              if EqualFold (case name of None \<Rightarrow> [] | Some n \<Rightarrow> n) ''description''
              then (case content of Some c \<Rightarrow> c | None \<Rightarrow> title)
              else description)
       [] (meta_elements doc)"

definition find_paragraphs :: "World \<Rightarrow> Document \<Rightarrow> string list" where
  "find_paragraphs w doc =
     foldl (\<lambda>paragraphs text.
              let para = TrimAndSanitize (Sanitize w) text
              in if para \<noteq> [] then paragraphs @ [para] else paragraphs)
       [] (p_elements doc)"

definition find_urls :: "string \<Rightarrow> Document \<Rightarrow> string list" where
  "find_urls url doc =
     foldl (\<lambda>urls a.
              case a of
                None \<Rightarrow> urls
              | Some href \<Rightarrow>
                  (case AbsoluteURL url href of
                     Inl e \<Rightarrow> urls
                   | Inr absoluteUrl \<Rightarrow>
                       if \<not> URLExists urls absoluteUrl then urls @ [absoluteUrl] else urls))
       [] (a_elements doc)"

text \<open>
  A scrape unit sends its result on \<open>channel\<close> and returns. The channel has no buffer:
  it is the list of the results sent and not yet received, oldest first. The send of a
  unit is over when the launcher has received the result; the unit's deferred
  \<open>wg.Done()\<close> runs after that, so the model runs it with the receive (\<open>receive_loop\<close>
  below) and \<open>Scrape\<close> is the unit up to its send.
\<close>

definition Done :: "int \<Rightarrow> fault + int" where
  "Done wg = (if wg - 1 < 0 then Inl NegativeWaitGroupCounter else Inr (wg - 1))"

definition Scrape ::
  "World \<Rightarrow> string \<Rightarrow> ScrapeResult list \<Rightarrow> Scrapper
     \<Rightarrow> fault + (Scrapper \<times> ScrapeResult list)" where
  "Scrape w url channel s =
     (if url = [] then
        Inr (s, channel @ [\<lparr>Page = None, Error = Some ErrEmptyUrl\<rparr>])
      else if IsVisited s url then
        Inr (s, channel @ [\<lparr>Page = None, Error = Some ErrAlreadyVisited\<rparr>])
      else if \<not> IsProcessed s url then
        Inr (s, channel @ [\<lparr>Page = None, Error = Some ErrStillProcessed\<rparr>])
      else
        (let s0 = InitiateScrape w s url;
             head = HeadRequest w (Sent s0) url;
             s1 = s0\<lparr>Sent := snd head\<rparr>
         in case fst head of
              Inl headError \<Rightarrow>
                and_then
                  (ScrapeFailed s1 url
                     \<lparr>FailedPage_Url = url, FailReason = headError,
                      FailedPage_Timestamp = CurrentTimestamp w s1\<rparr>)
                  (\<lambda>s2. Inr (s2, channel @ [\<lparr>Page = None, Error = Some headError\<rparr>]))
            | Inr headResponse \<Rightarrow>
                (let contentLength = Response_ContentLength headResponse;
                     contentType = ToLower (Header_Get (Header headResponse) ''Content-Type'')
                 in if \<not> Contains contentType ''text/html'' then
                      (let page = \<lparr>Url = url, Title = [], Description = [],
                                   ContentType = contentType, ContentLength = contentLength,
                                   Timestamp = CurrentTimestamp w s1,
                                   Urls = [], Paragrahps = []\<rparr>
                       in and_then (ScrapeSucceed s1 url page)
                            (\<lambda>s2. Inr (s2, channel @ [\<lparr>Page = Some page, Error = None\<rparr>])))
                    else
                      (let get = GetRequest w (Sent s1) url;
                           s2 = s1\<lparr>Sent := snd get\<rparr>
                       in case fst get of
                            Inl getError \<Rightarrow>
                              and_then
                                (ScrapeFailed s2 url
                                   \<lparr>FailedPage_Url = url, FailReason = getError,
                                    FailedPage_Timestamp = CurrentTimestamp w s2\<rparr>)
                                (\<lambda>s3. Inr (s3, channel @ [\<lparr>Page = None, Error = Some getError\<rparr>]))
                          | Inr getResponse \<Rightarrow>
                              (case NewDocumentFromReader w (Body getResponse) of
                                 Inl e \<Rightarrow>
                                   and_then
                                     (ScrapeFailed s2 url
                                        \<lparr>FailedPage_Url = url, FailReason = ErrDocument e,
                                         FailedPage_Timestamp = CurrentTimestamp w s2\<rparr>)
                                     (\<lambda>s3. Inr (s3, channel @ [\<lparr>Page = None, Error = Some (ErrDocument e)\<rparr>]))
                               | Inr doc \<Rightarrow>
                                   (let title = find_title w doc;
                                        description = find_description title doc;
                                        paragraphs = find_paragraphs w doc;
                                        urls = find_urls url doc;
                                        page = \<lparr>Url = url, Title = title,
                                                Description = description,
                                                ContentType = contentType,
                                                ContentLength = contentLength,
                                                Timestamp = CurrentTimestamp w s2,
                                                Urls = urls, Paragrahps = paragraphs\<rparr>
                                    in and_then (ScrapeSucceed s2 url page)
                                         (\<lambda>s3. Inr (s3, channel @ [\<lparr>Page = Some page, Error = None\<rparr>]))))))))"

section \<open>Crawl orchestrator\<close>

definition LogFile :: string where
  "LogFile = ''logs.txt''"

text \<open>
  The \<open>Collector\<close>. Its \<open>Loggers\<close> field is the same pointer as the \<open>Loggers\<close> field of its
  \<open>Scrapper\<close>, which is where the model keeps it. \<open>Begin\<close> and \<open>End\<close> are Unix seconds.
  \<open>Stdout\<close> is not a field of the Go struct: it is what the program has printed to the
  standard output.
\<close>

record Collector =
  Seed :: string
  Depth :: int
  SaveToFile :: bool
  FileName :: string
  Scrapper :: Scrapper
  Begin :: int
  End :: int
  Stdout :: "message list"

definition NewCollector :: "World \<Rightarrow> string \<Rightarrow> int \<Rightarrow> bool \<Rightarrow> string \<Rightarrow> err + Collector" where
  "NewCollector w seed depth saveToFile fileName =
     (if ParseRequestURI seed = None then Inl ErrSeedNotValid
      else if depth \<le> 0 then Inl ErrDepth
      else
        (case CreateLoggers w LogFile of
           Inl e \<Rightarrow>
             Inr \<lparr>Seed = seed, Depth = depth, SaveToFile = saveToFile, FileName = fileName,
                  Scrapper = NewScrapper None, Begin = 0, End = 0,
                  Stdout = [MsgErrorCreatingLoggers e]\<rparr>
         | Inr loggers \<Rightarrow>
             Inr \<lparr>Seed = seed, Depth = depth, SaveToFile = saveToFile, FileName = fileName,
                  Scrapper = NewScrapper (Some loggers), Begin = 0, End = 0, Stdout = []\<rparr>))"

text \<open>
  \<open>Crawl\<close> starts one goroutine per link and then receives one result per link, crawling
  the page of each result before it receives the next. The goroutines run concurrently
  in Go. The model runs them one after the other, in the order of the links, each up to
  its send, and the receiving loop after them: one of the schedules of the program.
\<close>

fun launch ::
  "World \<Rightarrow> string list \<Rightarrow> ScrapeResult list \<Rightarrow> Scrapper
     \<Rightarrow> fault + (Scrapper \<times> ScrapeResult list)" where
  "launch w [] channel s = Inr (s, channel)"
| "launch w (u # us) channel s =
     and_then (Scrape w u channel s) (\<lambda>(s', channel'). launch w us channel' s')"

text \<open>
  The receiving loop \<open>for range page.Urls\<close>, \<open>n\<close> links to go; \<open>crawl\<close> is the recursive
  call \<open>c.Crawl(scrapeResult.Page, depth-1)\<close>. A receive from a channel that nobody
  will send on is a deadlock.
\<close>

fun receive_loop ::
  "(SucceededPage \<Rightarrow> Scrapper \<Rightarrow> fault + Scrapper) \<Rightarrow> nat \<Rightarrow> ScrapeResult list \<Rightarrow> int
     \<Rightarrow> Scrapper \<Rightarrow> fault + (Scrapper \<times> ScrapeResult list \<times> int)" where
  "receive_loop crawl 0 channel wg s = Inr (s, channel, wg)"
| "receive_loop crawl (Suc n) [] wg s = Inl Deadlock"
| "receive_loop crawl (Suc n) (scrapeResult # channel) wg s =
     and_then (Done wg)
       (\<lambda>wg'. and_then
                 (case Error scrapeResult of
                    Some e \<Rightarrow> log_line s ERROR (MsgScrapeError e)
                  | None \<Rightarrow> Inr s)
                 (\<lambda>s1. and_then
                          (case Page scrapeResult of
                             Some page \<Rightarrow> crawl page s1
                           | None \<Rightarrow> Inr s1)
                          (\<lambda>s2. receive_loop crawl n channel wg' s2)))"

text \<open>
  \<open>Crawl\<close>: \<open>wg.Add(len(page.Urls))\<close>, the launches, the receiving loop and \<open>wg.Wait()\<close>,
  which never returns when the counter does not come down to zero.
\<close>

function Crawl :: "World \<Rightarrow> SucceededPage option \<Rightarrow> int \<Rightarrow> Scrapper \<Rightarrow> fault + Scrapper" where
  "Crawl w page depth s =
     (case page of
        None \<Rightarrow> Inr s
      | Some p \<Rightarrow>
          if depth \<le> 0 then Inr s
          else
            and_then (launch w (Urls p) [] s)
              (\<lambda>(s1, channel).
                 and_then
                   (receive_loop (\<lambda>page' s'. Crawl w (Some page') (depth - 1) s')
                      (length (Urls p)) channel (int (length (Urls p))) s1)
                   (\<lambda>(s2, channel', wg). if wg \<noteq> 0 then Inl Deadlock else Inr s2)))"
  by pat_completeness auto
termination
  by (relation "measure (\<lambda>(w, page, depth, s). nat depth)") auto

declare Crawl.simps [simp del]

definition SaveResultsToFile :: "World \<Rightarrow> Collector \<Rightarrow> fault + ((bool \<times> err option) \<times> Collector)" where
  "SaveResultsToFile w c =
     and_then
       (log_line (Scrapper c) INFO
          (MsgFinished (NumberOfPagesSucceed (Scrapper c)) (NumberOfPagesFailed (Scrapper c))))
       (\<lambda>s1. case MarshalIndent w of
                Some e \<Rightarrow>
                  and_then (log_line s1 ERROR (MsgMarshalError e))
                    (\<lambda>s2. Inr ((False, Some (ErrMarshal e)), c\<lparr>Scrapper := s2\<rparr>))
              | None \<Rightarrow>
                  (case WriteFile w (FileName c) of
                     Some e \<Rightarrow>
                       and_then (log_line s1 ERROR (MsgSaveError e))
                         (\<lambda>s2. Inr ((False, Some (ErrWriteFile e)), c\<lparr>Scrapper := s2\<rparr>))
                   | None \<Rightarrow>
                       and_then (log_line s1 INFO (MsgSaved (FileName c)))
                         (\<lambda>s2. Inr ((True, None), c\<lparr>Scrapper := s2\<rparr>))))"

definition StartCrawling :: "World \<Rightarrow> Collector \<Rightarrow> fault + (int \<times> Collector)" where
  "StartCrawling w c =
     (let message = MsgStarting (Seed c) (Depth c);
          c0 = c\<lparr>Stdout := Stdout c @ [message]\<rparr>
      in and_then (log_line (Scrapper c0) INFO message)
           (\<lambda>s0. let c1 = c0\<lparr>Begin := CurrentTimestamp w s0\<rparr>
                 in and_then (Scrape w (Seed c1) [] s0)
                      (\<lambda>(s1, channel).
                         and_then
                           (receive_loop (\<lambda>page s. Crawl w (Some page) (Depth c1 - 1) s)
                              1 channel 1 s1)
                           (\<lambda>(s3, channel', wg).
                              if wg \<noteq> 0 then Inl Deadlock
                              else
                                and_then
                                  (if SaveToFile c1 then
                                     and_then
                                       (SaveResultsToFile w
                                          (c1\<lparr>Scrapper := s3, End := CurrentTimestamp w s3\<rparr>))
                                       (\<lambda>(r, c2). Inr c2)
                                   else Inr (c1\<lparr>Scrapper := s3\<rparr>))
                                  (\<lambda>c3. Inr (NumberOfPagesSucceed (Scrapper c3), c3))))))"

text \<open>Worlds for the examples: the answers of the network, the documents, the log file.\<close>

definition world_of ::
  "(nat \<Rightarrow> string \<Rightarrow> string \<Rightarrow> string + Response) \<Rightarrow> (string \<Rightarrow> string + Document)
     \<Rightarrow> string option \<Rightarrow> World" where
  "world_of answer documents open_error =
     \<lparr>NewRequest = (\<lambda>method url. None),
      Do = answer,
      NewDocumentFromReader = documents,
      Sanitize = (\<lambda>s. s),
      Now = (\<lambda>n. int n),
      GoroutineId = (\<lambda>n. int n + 1),
      OpenFile = (\<lambda>name. open_error),
      MarshalIndent = None,
      WriteFile = (\<lambda>name. None)\<rparr>"

definition response_of :: "int \<Rightarrow> string \<Rightarrow> string \<Rightarrow> Response" where
  "response_of code content_type body =
     \<lparr>StatusCode = code, Response_ContentLength = int (length body),
      Header = [''Content-Type'' \<mapsto> content_type], Body = body\<rparr>"

text \<open>Every request is answered with the given status code.\<close>

definition status_world :: "int \<Rightarrow> World" where
  "status_world code =
     world_of (\<lambda>n method url. Inr (response_of code ''text/html'' [])) (\<lambda>body. Inl ''no document'') None"

text \<open>Every URL is a PDF file.\<close>

definition pdf_world :: World where
  "pdf_world =
     world_of (\<lambda>n method url. Inr (response_of 200 ''application/pdf'' []))
       (\<lambda>body. Inl ''no document'') None"

text \<open>The first request of the run is refused; from then on every URL is a PDF file.\<close>

definition flaky_world :: World where
  "flaky_world =
     world_of (\<lambda>n method url.
                 if n = 0 then Inl ''connection refused''
                 else Inr (response_of 200 ''application/pdf'' []))
       (\<lambda>body. Inl ''no document'') None"

text \<open>
  A site of three pages: the home page links to \<open>/b\<close> and \<open>c.pdf\<close>, the page \<open>/b\<close> links
  back to the home page and to \<open>/d\<close>, which does not exist.
\<close>

definition site_world :: World where
  "site_world =
     world_of
       (\<lambda>n method url.
          if url = ''https://a.com/'' then Inr (response_of 200 ''text/html; charset=UTF-8'' ''home'')
          else if url = ''https://a.com/b'' then Inr (response_of 200 ''Text/HTML'' ''b'')
          else if url = ''https://a.com/c.pdf'' then Inr (response_of 200 ''application/pdf'' [])
          else Inr (response_of 404 ''text/html'' []))
       (\<lambda>body.
          if body = ''home'' then
            Inr \<lparr>title_elements = [''  Home  page ''],
                 meta_elements = [(Some ''Description'', Some ''the home page'')],
                 p_elements = [''hello   world'', ''  ''],
                 a_elements = [Some ''/b'', Some ''#top'', None, Some ''c.pdf'', Some ''/b#x'',
                               Some ''mailto:x@a.com'']\<rparr>
          else if body = ''b'' then
            Inr \<lparr>title_elements = [''B''], meta_elements = [], p_elements = [],
                 a_elements = [Some ''/'', Some ''/d'']\<rparr>
          else Inl ''no document'')
       None"

text \<open>The log file cannot be opened.\<close>

definition no_log_world :: World where
  "no_log_world =
     world_of (\<lambda>n method url. Inr (response_of 200 ''application/pdf'' []))
       (\<lambda>body. Inl ''no document'') (Some ''permission denied'')"

section \<open>Notions of the properties\<close>

text \<open>
  The state a scrape unit leaves when it commits a failure, and when it commits a
  success: one record written, the marker gone, the requests sent, one more line logged.
\<close>

definition failed_state :: "World \<Rightarrow> Scrapper \<Rightarrow> string \<Rightarrow> wire \<Rightarrow> err \<Rightarrow> Loggers \<Rightarrow> Scrapper" where
  "failed_state w s url sent e lg =
     s\<lparr>Failed := Mapping.update url
          \<lparr>FailedPage_Url = url, FailReason = e, FailedPage_Timestamp = Now w (length sent)\<rparr>
          (Failed s),
       Sent := sent,
       Loggers := Some (lg @ [(INFO, MsgScrapeFailed url e)])\<rparr>"

definition succeeded_state :: "Scrapper \<Rightarrow> string \<Rightarrow> wire \<Rightarrow> SucceededPage \<Rightarrow> Loggers \<Rightarrow> Scrapper" where
  "succeeded_state s url sent page lg =
     s\<lparr>Succeed := Mapping.update url page (Succeed s),
       Sent := sent,
       Loggers := Some (lg @ [(INFO, MsgScrapeSucceeded url)])\<rparr>"

text \<open>The page record built from the HEAD response alone, and the one built from a document.\<close>

definition head_page :: "World \<Rightarrow> string \<Rightarrow> wire \<Rightarrow> Response \<Rightarrow> SucceededPage" where
  "head_page w url sent headResponse =
     \<lparr>Url = url, Title = [], Description = [],
      ContentType = ToLower (Header_Get (Header headResponse) ''Content-Type''),
      ContentLength = Response_ContentLength headResponse,
      Timestamp = Now w (length sent), Urls = [], Paragrahps = []\<rparr>"

definition html_page :: "World \<Rightarrow> string \<Rightarrow> wire \<Rightarrow> Response \<Rightarrow> Document \<Rightarrow> SucceededPage" where
  "html_page w url sent headResponse doc =
     \<lparr>Url = url, Title = find_title w doc,
      Description = find_description (find_title w doc) doc,
      ContentType = ToLower (Header_Get (Header headResponse) ''Content-Type''),
      ContentLength = Response_ContentLength headResponse,
      Timestamp = Now w (length sent),
      Urls = find_urls url doc, Paragrahps = find_paragraphs w doc\<rparr>"

text \<open>The URLs of the two terminal collections.\<close>

definition terminal :: "Scrapper \<Rightarrow> string set" where
  "terminal s = Mapping.keys (Succeed s) \<union> Mapping.keys (Failed s)"

text \<open>
  The link graph of a state has an edge from \<open>u\<close> to every outbound link of the page
  recorded for \<open>u\<close> in the succeeded collection. \<open>within s n u v\<close>: \<open>v\<close> is at distance
  \<open>n\<close> or less from \<open>u\<close> in the link graph of \<open>s\<close>.
\<close>

fun within :: "Scrapper \<Rightarrow> nat \<Rightarrow> string \<Rightarrow> string \<Rightarrow> bool" where
  "within s 0 u v = (u = v)"
| "within s (Suc n) u v =
     (u = v \<or> (case Mapping.lookup (Succeed s) u of
                 None \<Rightarrow> False
               | Some p \<Rightarrow> \<exists>x \<in> set (Urls p). within s n x v))"

text \<open>
  What running a part of the crawl may do to the state: the logger stays, the recorded
  pages stay as they are, the terminal collections only grow.
\<close>

definition extends :: "Scrapper \<Rightarrow> Scrapper \<Rightarrow> bool" where
  "extends s s' =
     (Loggers s' \<noteq> None
      \<and> Mapping.lookup (Succeed s) \<subseteq>\<^sub>m Mapping.lookup (Succeed s')
      \<and> terminal s \<subseteq> terminal s')"

text \<open>Two launches for one URL in \<open>flaky_world\<close>: the states after the first and the second.\<close>

definition first_try :: Scrapper where
  "first_try =
     failed_state flaky_world (NewScrapper (Some [])) ''https://a.com/f.pdf''
       [(''HEAD'', ''https://a.com/f.pdf'')] (ErrHttpRequest ''connection refused'') []"

definition second_try :: Scrapper where
  "second_try =
     succeeded_state first_try ''https://a.com/f.pdf''
       [(''HEAD'', ''https://a.com/f.pdf''), (''HEAD'', ''https://a.com/f.pdf'')]
       (head_page flaky_world ''https://a.com/f.pdf''
          [(''HEAD'', ''https://a.com/f.pdf''), (''HEAD'', ''https://a.com/f.pdf'')]
          (response_of 200 ''application/pdf'' []))
       [(INFO, MsgScrapeFailed ''https://a.com/f.pdf'' (ErrHttpRequest ''connection refused''))]"

section \<open>Properties of the page fetcher\<close>

text \<open>
  C7, as stated: the request operation accepts every 2xx response. It does not: the
  request is built, the transport delivers a response with status 204, and the operation
  returns the error "status code: 204".
\<close>

theorem C7_counterexample:
  "NewRequest (status_world 204) ''GET'' ''https://a.com'' = None
   \<and> Do (status_world 204) 0 ''GET'' ''https://a.com''
       = Inr (response_of 204 ''text/html'' [])
   \<and> StatusCode (response_of 204 ''text/html'' []) = 204
   \<and> fst (Request (status_world 204) [] ''https://a.com'' ''GET'') = Inl (ErrStatusCode 204)"
  by (simp add: Request_def status_world_def world_of_def response_of_def)

text \<open>
  C7, amended: the request operation returns an error exactly when the request cannot
  be built, the transport fails (a timeout included) or the status code is not 200; in
  every other case it returns the response it received, and every response with status
  200 is accepted.
\<close>

theorem C7_request_error_iff:
  "((\<exists>e. fst (Request w sent url method) = Inl e) =
     ((\<exists>e. NewRequest w method url = Some e) \<or>
      (\<exists>e. Do w (length sent) method url = Inl e) \<or>
      (\<exists>r. Do w (length sent) method url = Inr r \<and> StatusCode r \<noteq> 200))) \<and>
   ((fst (Request w sent url method) = Inr response) =
     (NewRequest w method url = None \<and>
      Do w (length sent) method url = Inr response \<and> StatusCode response = 200))"
  by (auto simp: Request_def split: option.splits sum.splits)

end
